theory Spec2Isabelle
  imports Main
begin

section \<open>JavaScript values shared by the components\<close>

text \<open>
  A field that is \<open>undefined\<close> or \<open>null\<close> is \<open>None\<close>; a string field is \<open>Some s\<close>.
  The only falsy string is the empty one, so \<open>truthy\<close> is what \<open>if (x)\<close> and \<open>!x\<close> test,
  and \<open>jsOr a b\<close> is \<open>a || b\<close>.
\<close>

definition truthy :: "string option \<Rightarrow> bool" where
  "truthy v = (case v of None \<Rightarrow> False | Some s \<Rightarrow> s \<noteq> [])"

definition jsOr :: "string option \<Rightarrow> string option \<Rightarrow> string option" where
  "jsOr a b = (if truthy a then a else b)"

text \<open>
  A value caught by \<open>catch (error)\<close>: \<open>err_body\<close> is \<open>None\<close> when \<open>error.body\<close> is
  absent, \<open>Some None\<close> when the body carries no \<open>message\<close>, and \<open>Some (Some m)\<close> when
  \<open>error.body.message\<close> is \<open>m\<close>; \<open>err_message\<close> is \<open>error.message\<close>.
\<close>

datatype js_error = JsError (err_body: "string option option") (err_message: "string option")

text \<open>\<open>error?.body?.message\<close>\<close>

definition bodyMessage :: "js_error \<Rightarrow> string option" where
  "bodyMessage e = (case err_body e of None \<Rightarrow> None | Some m \<Rightarrow> m)"

text \<open>\<open>error?.body?.message || error?.message || fallback\<close>\<close>

definition errorText :: "js_error \<Rightarrow> string \<Rightarrow> string option" where
  "errorText e fallback = jsOr (bodyMessage e) (jsOr (err_message e) (Some fallback))"

text \<open>
  What a component does to the outside world, in the order it does it: Apex calls, calls on
  the vendor SDK and on the widget it returns, and registrations on \<open>window\<close>. Widgets and
  listener functions are objects with identity; they are numbered handles.
\<close>

datatype effect =
    ApexUpdateStatus "string option" string
  | ApexCreateInstance "string option"
  | ApexCreateRecord "string option" "string option" "string option" "string option"
  | ApexRefreshToken "string option"
  | SdkWebforms nat "string option" "string option"
  | WidgetOn nat string
  | WidgetMount nat
  | WidgetDestroy nat
  | AddMessageListener nat
  | RemoveMessageListener nat

text \<open>The result object of \<open>createWebformInstance\<close>: \<open>{ instanceToken, instanceId, formUrl }\<close>.\<close>

datatype ds_result = DsResult (ds_instanceToken: "string option") (ds_instanceId: "string option")
  (ds_formUrl: "string option")

section \<open>betterWebform\<close>

text \<open>
  The fields of \<open>BetterWebform\<close> (betterWebform.js, lines 10 to 38), followed by the part of
  the browser the component acts on: the \<open>message\<close> listeners registered on \<open>window\<close>, the
  effects performed so far and the next unused object handle. \<open>docusignSDK\<close> records whether
  the field holds an SDK object with a \<open>webforms\<close> function; \<open>groupedConditions\<close> is display
  data that none of the session logic reads and is left out.
\<close>

record bw_state =
  showSelector :: bool
  isLoading :: bool
  errorMessage :: "string option"
  docusignSDK :: bool
  docusignLoaded :: bool
  webformsInstance :: "nat option"
  hasRendered :: bool
  messageHandler :: "nat option"
  instanceToken :: "string option"
  instanceId :: "string option"
  currentFormId :: "string option"
  webformInstanceRecordId :: "string option"
  pendingFormUrl :: "string option"
  pendingInstanceToken :: "string option"
  didEnd :: bool
  didSubmit :: bool
  didReady :: bool
  listeners :: "nat list"
  effects :: "effect list"
  nextHandle :: nat

definition bw_init :: bw_state where
  "bw_init = \<lparr> showSelector = True, isLoading = False, errorMessage = None,
     docusignSDK = False, docusignLoaded = False, webformsInstance = None,
     hasRendered = False, messageHandler = None, instanceToken = None, instanceId = None,
     currentFormId = None, webformInstanceRecordId = None, pendingFormUrl = None,
     pendingInstanceToken = None, didEnd = False, didSubmit = False, didReady = False,
     listeners = [], effects = [], nextHandle = 0 \<rparr>"

text \<open>
  \<open>updateStatus\<close> (lines 294 to 320). The Apex call is issued before the \<open>await\<close>; its
  outcome \<open>oc\<close> is \<open>None\<close> when the promise resolves and \<open>Some e\<close> when it rejects with
  \<open>e\<close>. The continuation after the \<open>await\<close> only assigns \<open>errorMessage\<close>, and is run
  here together with the call.
\<close>

definition updateStatus :: "js_error option \<Rightarrow> string \<Rightarrow> bw_state \<Rightarrow> bw_state" where
  "updateStatus oc status s =
     (if \<not> truthy (webformInstanceRecordId s) then s
      else
        (let s1 = s\<lparr>effects := effects s @ [ApexUpdateStatus (webformInstanceRecordId s) status]\<rparr>
         in case oc of
              None \<Rightarrow> s1
            | Some e \<Rightarrow> s1\<lparr>errorMessage := errorText e ''Failed to update status''\<rparr>))"

text \<open>\<open>markInProgressOnce\<close> (lines 213 to 217).\<close>

definition markInProgressOnce :: "js_error option \<Rightarrow> bw_state \<Rightarrow> bw_state" where
  "markInProgressOnce oc s =
     (if didEnd s \<or> didSubmit s then s
      else updateStatus oc ''In Progress'' (s\<lparr>didEnd := True\<rparr>))"

text \<open>
  The observer registered with \<open>webformsInstance.on(eventType, ...)\<close> (lines 222 to 244).
  The event object the SDK passes is the second argument; the \<open>switch\<close> is on the event
  name alone. \<open>sessionEndType\<close> of the payload is kept as an argument to show that it is
  not read.
\<close>

definition sdkHandler :: "string \<Rightarrow> string option \<Rightarrow> js_error option \<Rightarrow> bw_state \<Rightarrow> bw_state" where
  "sdkHandler eventType payloadSessionEndType oc s =
     (if eventType = ''ready'' then
        (if \<not> didReady s then updateStatus oc ''Ready'' (s\<lparr>didReady := True\<rparr>) else s)
      else if eventType = ''submitted'' then
        (if didSubmit s then s else updateStatus oc ''Submitted'' (s\<lparr>didSubmit := True\<rparr>))
      else if eventType = ''sessionEnd'' then markInProgressOnce oc s
      else s)"

text \<open>
  The \<open>data\<close> of a window message: \<open>data.sender\<close>, \<open>data.eventType\<close>, \<open>data.type\<close> and
  \<open>data?.content?.sessionEndType\<close>. A message event without (truthy) data is \<open>None\<close>.
\<close>

datatype msg_data = MsgData (sender: "string option") (eventType: "string option")
  (msgType: "string option") (sessionEndType: "string option")

definition allowedSenders :: "string list" where
  "allowedSenders = [''WebFormsPlayer'', ''@embedded/signing-ui'', ''@embedded-js/core'']"

definition interesting :: "string list" where
  "interesting = [''ready'', ''submitted'', ''sessionEnd'']"

text \<open>\<open>has\<close> of a \<open>Set\<close> of strings, asked of a field that may be undefined.\<close>

definition setHas :: "string list \<Rightarrow> string option \<Rightarrow> bool" where
  "setHas xs v = (case v of None \<Rightarrow> False | Some x \<Rightarrow> x \<in> set xs)"

text \<open>The fallback listener \<open>this.messageHandler\<close> (lines 248 to 280).\<close>

definition messageHandlerFn :: "msg_data option \<Rightarrow> js_error option \<Rightarrow> bw_state \<Rightarrow> bw_state" where
  "messageHandlerFn evt oc s =
     (case evt of
        None \<Rightarrow> s
      | Some d \<Rightarrow>
          if truthy (sender d) \<and> \<not> setHas allowedSenders (sender d) then s
          else
            (let ty = jsOr (eventType d) (msgType d) in
             if \<not> truthy ty \<or> \<not> setHas interesting ty then s
             else if ty = Some ''submitted'' then
               (if \<not> didSubmit s then updateStatus oc ''Submitted'' (s\<lparr>didSubmit := True\<rparr>)
                else s)
             else if ty = Some ''sessionEnd'' then
               (let t = sessionEndType d in
                if t = Some ''finishLater'' \<or> t = Some ''finish_later'' then markInProgressOnce oc s
                else if t = Some ''completed'' then updateStatus oc ''Submitted'' s
                else markInProgressOnce oc s)
             else if ty = Some ''ready'' then
               (if \<not> didReady s then updateStatus oc ''Ready'' (s\<lparr>didReady := True\<rparr>) else s)
             else s))"

text \<open>
  A value caught where only \<open>error?.message || error\<close> is appended to a text: its
  \<open>message\<close>, and what the string concatenation makes of the value itself
  (\<open>[object Object]\<close> for a plain object, \<open>Error\<close> for \<open>new Error('')\<close>, a thrown string
  as it is).
\<close>

datatype thrown = Thrown (thrown_message: "string option") (thrown_string: string)

definition thrownText :: "thrown \<Rightarrow> string" where
  "thrownText e =
     (case jsOr (thrown_message e) None of None \<Rightarrow> thrown_string e | Some m \<Rightarrow> m)"

text \<open>
  \<open>connectedCallback\<close> (lines 41 to 56), by its outcome. When both loads resolve, the
  argument says whether the resolved SDK object is one with a \<open>webforms\<close> function. When
  one of them rejects with \<open>e\<close>, the text appended is \<open>e?.message || e\<close>.
\<close>

definition connectedCallback_loaded :: "bool \<Rightarrow> bw_state \<Rightarrow> bw_state" where
  "connectedCallback_loaded sdkUsable s = s\<lparr>docusignSDK := sdkUsable, docusignLoaded := True\<rparr>"

definition connectedCallback_failed :: "thrown \<Rightarrow> bw_state \<Rightarrow> bw_state" where
  "connectedCallback_failed e s =
     s\<lparr>errorMessage := Some (''Failed to load DocuSign library: '' @ thrownText e)\<rparr>"

text \<open>
  The two teardown blocks that open both \<open>disconnectedCallback\<close> (lines 59 to 65) and
  \<open>handleBackToSelector\<close> (lines 161 to 167): remove the window listener and forget it,
  then call \<open>destroy\<close> on the widget. Every widget the SDK returns has a \<open>destroy\<close>
  function (section 6 of the specification); what it throws is swallowed.
\<close>

definition teardown :: "bw_state \<Rightarrow> bw_state" where
  "teardown s =
     (let s1 = (case messageHandler s of
                  None \<Rightarrow> s
                | Some h \<Rightarrow> s\<lparr>messageHandler := None, listeners := removeAll h (listeners s),
                              effects := effects s @ [RemoveMessageListener h]\<rparr>)
      in case webformsInstance s1 of
           None \<Rightarrow> s1
         | Some w \<Rightarrow> s1\<lparr>effects := effects s1 @ [WidgetDestroy w]\<rparr>)"

definition disconnectedCallback :: "bw_state \<Rightarrow> bw_state" where
  "disconnectedCallback s = teardown s"

text \<open>\<open>handleBackToSelector\<close> (lines 159 to 181).\<close>

definition handleBackToSelector :: "bw_state \<Rightarrow> bw_state" where
  "handleBackToSelector s =
     (teardown s)\<lparr>showSelector := True, instanceToken := None, instanceId := None,
        currentFormId := None, webformInstanceRecordId := None, webformsInstance := None,
        pendingFormUrl := None, pendingInstanceToken := None, hasRendered := False,
        didEnd := False, didSubmit := False, didReady := False\<rparr>"

text \<open>
  \<open>initializeWebform\<close> (lines 184 to 292). The container is a DOM node and only passed on
  to \<open>mount\<close>. The \<open>try\<close> block can be left at the explicit \<open>throw\<close> of line 190 or
  because a call into the SDK throws: \<open>webforms\<close> (line 193, nothing assigned yet), the
  first \<open>on\<close> (line 222, the widget already held) or \<open>mount\<close> (line 285, the window
  listener already registered). All of them land in the \<open>catch\<close> of line 287.
\<close>

datatype sdk_fault = WebformsThrows thrown | OnThrows thrown | MountThrows thrown

definition initFailed :: "string \<Rightarrow> bw_state \<Rightarrow> bw_state" where
  "initFailed msg s =
     s\<lparr>errorMessage := Some (''Failed to initialize webform: '' @ msg), showSelector := True\<rparr>"

definition initializeWebform ::
  "sdk_fault option \<Rightarrow> string option \<Rightarrow> string option \<Rightarrow> bw_state \<Rightarrow> bw_state" where
  "initializeWebform fault formUrl token s =
     (if \<not> docusignSDK s then initFailed ''DocuSign SDK not properly initialized'' s
      else
        (let w = nextHandle s; h = Suc w;
             s1 = s\<lparr>webformsInstance := Some w,
                    effects := effects s @ [SdkWebforms w formUrl token],
                    nextHandle := Suc h\<rparr>;
             s2 = s1\<lparr>messageHandler := Some h, listeners := listeners s1 @ [h],
                     effects := effects s1 @
                       [WidgetOn w ''ready'', WidgetOn w ''submitted'',
                        WidgetOn w ''sessionEnd'', AddMessageListener h]\<rparr>
         in case fault of
              Some (WebformsThrows e) \<Rightarrow> initFailed (thrownText e) s
            | Some (OnThrows e) \<Rightarrow> initFailed (thrownText e) s1
            | Some (MountThrows e) \<Rightarrow> initFailed (thrownText e) s2
            | None \<Rightarrow> s2\<lparr>effects := effects s2 @ [WidgetMount w]\<rparr>))"

text \<open>
  \<open>renderedCallback\<close> (lines 68 to 79); \<open>containerFound\<close> says whether the template holds
  the container element.
\<close>

definition renderedCallback :: "bool \<Rightarrow> sdk_fault option \<Rightarrow> bw_state \<Rightarrow> bw_state" where
  "renderedCallback containerFound fault s =
     (if truthy (pendingFormUrl s) \<and> truthy (pendingInstanceToken s)
         \<and> \<not> hasRendered s \<and> \<not> showSelector s then
        (let s1 = s\<lparr>hasRendered := True\<rparr> in
         if containerFound
         then initializeWebform fault (pendingFormUrl s1) (pendingInstanceToken s1) s1
         else s1)
      else s)"

text \<open>
  \<open>wiredConditions\<close> (lines 81 to 98). With data it only rebuilds \<open>groupedConditions\<close>;
  with an error it sets the banner.
\<close>

definition wiredConditions :: "bool \<Rightarrow> bool \<Rightarrow> bw_state \<Rightarrow> bw_state" where
  "wiredConditions hasData hasError s =
     (if hasData then s
      else if hasError then s\<lparr>errorMessage := Some ''Failed to load conditions''\<rparr>
      else s)"

text \<open>
  \<open>handleConditionClick\<close> (lines 100 to 157). \<open>formId\<close> and \<open>dbqWebformId\<close> are the two
  dataset attributes of the clicked element; \<open>created\<close> is the outcome of
  \<open>createWebformInstance\<close> and \<open>recorded\<close> that of \<open>createWebformInstanceRecord\<close>
  (\<open>Inl\<close> a rejection, \<open>Inr\<close> the resolved value). The handler is run to its end in one
  step: between its awaits the component is in selector view with no widget mounted.
\<close>

definition handleConditionClick ::
  "string option \<Rightarrow> string option \<Rightarrow> js_error + ds_result \<Rightarrow> js_error + string option
     \<Rightarrow> bw_state \<Rightarrow> bw_state" where
  "handleConditionClick formId dbqWebformId created recorded s =
     (if \<not> docusignLoaded s then
        s\<lparr>errorMessage :=
             Some ''DocuSign library not loaded yet. Please try again in a moment.''\<rparr>
      else
        (let s1 = s\<lparr>isLoading := True, errorMessage := None\<rparr> in
         if \<not> truthy formId \<or> \<not> truthy dbqWebformId then
           s1\<lparr>errorMessage := Some ''Missing form information'', isLoading := False\<rparr>
         else
           (let s2 = s1\<lparr>effects := effects s1 @ [ApexCreateInstance formId]\<rparr> in
            case created of
              Inl e \<Rightarrow> s2\<lparr>errorMessage := errorText e ''Unexpected error'', isLoading := False\<rparr>
            | Inr ds \<Rightarrow>
                (let s3 = s2\<lparr>instanceToken := ds_instanceToken ds,
                             instanceId := ds_instanceId ds, currentFormId := formId,
                             effects := effects s2 @
                               [ApexCreateRecord (ds_instanceToken ds) (ds_instanceId ds)
                                  (ds_formUrl ds) dbqWebformId]\<rparr> in
                 case recorded of
                   Inl e \<Rightarrow>
                     s3\<lparr>errorMessage := errorText e ''Unexpected error'', isLoading := False\<rparr>
                 | Inr sfRecordId \<Rightarrow>
                     s3\<lparr>webformInstanceRecordId := sfRecordId,
                        pendingFormUrl := ds_formUrl ds,
                        pendingInstanceToken := ds_instanceToken ds,
                        showSelector := False, isLoading := False,
                        didEnd := False, didSubmit := False, didReady := False\<rparr>))))"

text \<open>
  A widget is active from the \<open>webforms\<close> call that made it until \<open>destroy\<close> is called on
  it. The active widgets are read off the effects, oldest effect first.
\<close>

definition widgetEffect :: "effect \<Rightarrow> nat list \<Rightarrow> nat list" where
  "widgetEffect e acc =
     (case e of
        SdkWebforms w u t \<Rightarrow> acc @ [w]
      | WidgetDestroy w \<Rightarrow> removeAll w acc
      | _ \<Rightarrow> acc)"

definition activeWidgets :: "effect list \<Rightarrow> nat list" where
  "activeWidgets es = fold widgetEffect es []"

text \<open>
  An SDK event of a given name reaches the component when an active widget has an observer
  registered for that name with \<open>on\<close>.
\<close>

definition observed :: "string \<Rightarrow> effect list \<Rightarrow> bool" where
  "observed ty es = list_ex (\<lambda>w. WidgetOn w ty \<in> set es) (activeWidgets es)"

text \<open>
  Everything that can happen to the component. An SDK event runs the observer when one is
  registered for it; a window message is handed to every registered \<open>message\<close> listener
  (each is the closure of lines 248 to 280 over the same component).
\<close>

datatype bw_op =
    Connected bool
  | ConnectFailed thrown
  | Disconnected
  | Rendered bool "sdk_fault option"
  | Wired bool bool
  | ConditionClick "string option" "string option" "js_error + ds_result"
      "js_error + string option"
  | BackToSelector
  | SdkEvent string "string option" "js_error option"
  | WindowMessage "msg_data option" "js_error option"

fun bw_step :: "bw_op \<Rightarrow> bw_state \<Rightarrow> bw_state" where
  "bw_step (Connected usable) s = connectedCallback_loaded usable s"
| "bw_step (ConnectFailed e) s = connectedCallback_failed e s"
| "bw_step Disconnected s = disconnectedCallback s"
| "bw_step (Rendered found fault) s = renderedCallback found fault s"
| "bw_step (Wired d e) s = wiredConditions d e s"
| "bw_step (ConditionClick f r c rec) s = handleConditionClick f r c rec s"
| "bw_step BackToSelector s = handleBackToSelector s"
| "bw_step (SdkEvent ty p oc) s =
     (if observed ty (effects s) then sdkHandler ty p oc s else s)"
| "bw_step (WindowMessage evt oc) s =
     fold (\<lambda>h. messageHandlerFn evt oc) (listeners s) s"

definition bw_run :: "bw_op list \<Rightarrow> bw_state \<Rightarrow> bw_state" where
  "bw_run ops s = fold bw_step ops s"

text \<open>
  What holds of the window and of the widgets in every state the component reaches: the
  registered listeners are exactly the one the component remembers, every active widget is
  the one it holds, and before the first render of a session it holds neither.
\<close>

definition bw_inv :: "bw_state \<Rightarrow> bool" where
  "bw_inv s =
     (listeners s = (case messageHandler s of None \<Rightarrow> [] | Some h \<Rightarrow> [h])
      \<and> set (activeWidgets (effects s)) \<subseteq> set_option (webformsInstance s)
      \<and> (hasRendered s \<or> (webformsInstance s = None \<and> messageHandler s = None)))"

section \<open>webformRelaunch\<close>

text \<open>
  The fields of \<open>WebformRelaunch\<close> (webformRelaunch.js, lines 17 to 41), then the timers
  pending on \<open>window\<close>, the effects performed and the next unused handle. The SDK object
  \<open>ds\<close> is set together with \<open>sdkLoaded\<close> and has a \<open>webforms\<close> function.
\<close>

record rl_state =
  rl_recordId :: "string option"
  rl_isLoading :: bool
  rl_errorMessage :: "string option"
  rl_status :: "string option"
  rl_formUrl :: "string option"
  rl_instanceId :: "string option"
  rl_sdkLoaded :: bool
  rl_webformsInstance :: "nat option"
  rl_instanceToken :: "string option"
  rl_didEnd :: bool
  rl_didSubmit :: bool
  rl_pendingResume :: bool
  rl_sdkLoadTimeoutId :: "nat option"
  rl_timers :: "nat list"
  rl_effects :: "effect list"
  rl_nextHandle :: nat

definition rl_init :: "string option \<Rightarrow> rl_state" where
  "rl_init rid = \<lparr> rl_recordId = rid, rl_isLoading = True, rl_errorMessage = None,
     rl_status = None, rl_formUrl = None, rl_instanceId = None, rl_sdkLoaded = False,
     rl_webformsInstance = None, rl_instanceToken = None, rl_didEnd = False,
     rl_didSubmit = False, rl_pendingResume = False, rl_sdkLoadTimeoutId = None,
     rl_timers = [], rl_effects = [], rl_nextHandle = 0 \<rparr>"

text \<open>The getters \<open>canRender\<close> (lines 43 to 47) and \<open>showNotInProgress\<close> (lines 49 to 51).\<close>

definition canRender :: "rl_state \<Rightarrow> bool" where
  "canRender s = (\<not> truthy (rl_errorMessage s) \<and> rl_status s = Some ''In Progress'')"

definition showNotInProgress :: "rl_state \<Rightarrow> bool" where
  "showNotInProgress s =
     (\<not> rl_isLoading s \<and> \<not> truthy (rl_errorMessage s) \<and> rl_status s \<noteq> Some ''In Progress'')"

text \<open>\<open>updateStatus\<close> of the relaunch component (lines 198 to 206).\<close>

definition rl_updateStatus :: "js_error option \<Rightarrow> string \<Rightarrow> rl_state \<Rightarrow> rl_state" where
  "rl_updateStatus oc status s =
     (let s1 = s\<lparr>rl_effects := rl_effects s @ [ApexUpdateStatus (rl_recordId s) status]\<rparr>
      in case oc of
           None \<Rightarrow> s1
         | Some e \<Rightarrow> s1\<lparr>rl_errorMessage := errorText e ''Failed to update status''\<rparr>)"

text \<open>\<open>markInProgressOnce\<close> (lines 173 to 177) and the SDK observer (lines 180 to 191).\<close>

definition rl_markInProgressOnce :: "js_error option \<Rightarrow> rl_state \<Rightarrow> rl_state" where
  "rl_markInProgressOnce oc s =
     (if rl_didEnd s \<or> rl_didSubmit s then s
      else rl_updateStatus oc ''In Progress'' (s\<lparr>rl_didEnd := True\<rparr>))"

definition rl_sdkHandler :: "string \<Rightarrow> string option \<Rightarrow> js_error option \<Rightarrow> rl_state \<Rightarrow> rl_state" where
  "rl_sdkHandler evt payloadSessionEndType oc s =
     (if evt = ''submitted'' then
        (if \<not> rl_didSubmit s then rl_updateStatus oc ''Submitted'' (s\<lparr>rl_didSubmit := True\<rparr>)
         else s)
      else if evt = ''sessionEnd'' then rl_markInProgressOnce oc s
      else s)"

text \<open>\<open>mount\<close> (lines 157 to 195).\<close>

definition rl_mount :: "string option \<Rightarrow> string option \<Rightarrow> rl_state \<Rightarrow> rl_state" where
  "rl_mount formUrl token s =
     (let w = rl_nextHandle s in
      s\<lparr>rl_didEnd := False, rl_didSubmit := False, rl_webformsInstance := Some w,
        rl_effects := rl_effects s @
          [SdkWebforms w formUrl token, WidgetOn w ''ready'', WidgetOn w ''submitted'',
           WidgetOn w ''sessionEnd'', WidgetMount w],
        rl_nextHandle := Suc w\<rparr>)"

text \<open>The result object of \<open>refreshInstanceToken\<close>; \<open>formUrl\<close> and \<open>instanceId\<close> may be missing.\<close>

datatype refreshed = Refreshed (rf_instanceToken: "string option") (rf_formUrl: "string option")
  (rf_instanceId: "string option")

text \<open>The \<open>catch\<close> of \<open>resume\<close> (lines 150 to 153).\<close>

definition rl_resumeFailed :: "js_error \<Rightarrow> rl_state \<Rightarrow> rl_state" where
  "rl_resumeFailed e s =
     s\<lparr>rl_errorMessage := errorText e ''Unexpected error resuming webform'',
       rl_isLoading := False\<rparr>"

text \<open>
  \<open>resume\<close> (lines 117 to 154), run to its end: \<open>refreshedResult\<close> is the outcome of
  \<open>refreshInstanceToken\<close> and \<open>containerFound\<close> says whether the template holds the
  container when it is looked up. A \<open>new Error(m)\<close> has the message \<open>m\<close> and no body.
\<close>

definition resume :: "js_error + refreshed \<Rightarrow> bool \<Rightarrow> rl_state \<Rightarrow> rl_state" where
  "resume refreshedResult containerFound s =
     (let s1 = s\<lparr>rl_isLoading := True, rl_errorMessage := None\<rparr> in
      if \<not> rl_sdkLoaded s1 then s1\<lparr>rl_pendingResume := True\<rparr>
      else if \<not> truthy (rl_formUrl s1) \<or> \<not> truthy (rl_instanceId s1) then
        rl_resumeFailed (JsError None (Some ''Missing form URL or Instance ID on the record'')) s1
      else
        (let s2 = s1\<lparr>rl_effects := rl_effects s1 @ [ApexRefreshToken (rl_recordId s1)]\<rparr> in
         case refreshedResult of
           Inl e \<Rightarrow> rl_resumeFailed e s2
         | Inr r \<Rightarrow>
             (let s3 = s2\<lparr>rl_instanceToken := rf_instanceToken r,
                          rl_formUrl := jsOr (rf_formUrl r) (rl_formUrl s2),
                          rl_instanceId := jsOr (rf_instanceId r) (rl_instanceId s2)\<rparr> in
              if \<not> truthy (rl_instanceToken s3) then
                rl_resumeFailed (JsError None (Some ''Failed to obtain a fresh instance token'')) s3
              else if \<not> containerFound then
                rl_resumeFailed (JsError None (Some ''Container not found'')) s3
              else
                (let s4 = (case rl_webformsInstance s3 of
                             None \<Rightarrow> s3
                           | Some w \<Rightarrow> s3\<lparr>rl_effects := rl_effects s3 @ [WidgetDestroy w],
                                          rl_webformsInstance := None\<rparr>)
                 in (rl_mount (rl_formUrl s4) (rl_instanceToken s4) s4)
                      \<lparr>rl_isLoading := False\<rparr>))))"

text \<open>
  \<open>connectedCallback\<close> (lines 54 to 82) in its parts. It first arms the safety timer; the
  timer's callback is lines 58 to 61, and it runs when the timer fires while still pending.
  When both loads resolve the rest of the \<open>try\<close> block runs, and after it the \<open>finally\<close>
  block, which clears the timer; when a load rejects, the \<open>catch\<close> and the \<open>finally\<close> run.
\<close>

definition rl_connectedCallback_start :: "rl_state \<Rightarrow> rl_state" where
  "rl_connectedCallback_start s =
     (let t = rl_nextHandle s in
      s\<lparr>rl_sdkLoadTimeoutId := Some t, rl_timers := rl_timers s @ [t],
        rl_nextHandle := Suc t\<rparr>)"

definition rl_timeoutCallback :: "rl_state \<Rightarrow> rl_state" where
  "rl_timeoutCallback s =
     (if \<not> rl_sdkLoaded s then
        s\<lparr>rl_errorMessage := Some ''DocuSign SDK took too long to load.'',
          rl_isLoading := False\<rparr>
      else s)"

definition rl_timerFires :: "nat \<Rightarrow> rl_state \<Rightarrow> rl_state" where
  "rl_timerFires t s =
     (if t \<in> set (rl_timers s)
      then rl_timeoutCallback (s\<lparr>rl_timers := removeAll t (rl_timers s)\<rparr>)
      else s)"

definition rl_clearLoadTimeout :: "rl_state \<Rightarrow> rl_state" where
  "rl_clearLoadTimeout s =
     (case rl_sdkLoadTimeoutId s of
        None \<Rightarrow> s
      | Some t \<Rightarrow> s\<lparr>rl_timers := removeAll t (rl_timers s), rl_sdkLoadTimeoutId := None\<rparr>)"

definition rl_connectedCallback_loaded :: "js_error + refreshed \<Rightarrow> bool \<Rightarrow> rl_state \<Rightarrow> rl_state" where
  "rl_connectedCallback_loaded refreshedResult containerFound s =
     (let s1 = s\<lparr>rl_sdkLoaded := True\<rparr>;
          s2 = (if rl_pendingResume s1
                then resume refreshedResult containerFound (s1\<lparr>rl_pendingResume := False\<rparr>)
                else s1)
      in rl_clearLoadTimeout s2)"

definition rl_connectedCallback_failed :: "thrown \<Rightarrow> rl_state \<Rightarrow> rl_state" where
  "rl_connectedCallback_failed e s =
     rl_clearLoadTimeout
       (s\<lparr>rl_errorMessage := Some (''Failed to load DocuSign SDK: '' @ thrownText e),
          rl_isLoading := False\<rparr>)"

text \<open>
  \<open>wiredRecord\<close> (lines 85 to 109): the wire delivers an error, nothing yet, or the three
  fields of the record (status, form URL, instance id).
\<close>

datatype wire_result = WireError | WireNothing
  | WireData "string option" "string option" "string option"

definition wiredRecord :: "wire_result \<Rightarrow> js_error + refreshed \<Rightarrow> bool \<Rightarrow> rl_state \<Rightarrow> rl_state" where
  "wiredRecord w refreshedResult containerFound s =
     (case w of
        WireError \<Rightarrow>
          s\<lparr>rl_errorMessage := Some ''Failed to load Webform Instance record'',
            rl_isLoading := False\<rparr>
      | WireNothing \<Rightarrow> s
      | WireData st url iid \<Rightarrow>
          (let s1 = s\<lparr>rl_status := st, rl_formUrl := url, rl_instanceId := iid\<rparr> in
           if rl_status s1 = Some ''In Progress'' then
             (if rl_sdkLoaded s1 then resume refreshedResult containerFound s1
              else s1\<lparr>rl_pendingResume := True\<rparr>)
           else s1\<lparr>rl_isLoading := False\<rparr>))"

section \<open>docusignWebformIframe\<close>

text \<open>
  The fields of \<open>docusignWebformIframe\<close> (docusignWebformIframe.js, lines 7 to 17) and the
  effects performed.
\<close>

record if_state =
  if_selectedUrl :: "string option"
  if_showSelector :: bool
  if_isLoading :: bool
  if_errorMessage :: "string option"
  if_instanceToken :: "string option"
  if_instanceId :: "string option"
  if_currentFormId :: "string option"
  if_webformInstanceRecordId :: "string option"
  if_effects :: "effect list"

definition if_init :: if_state where
  "if_init = \<lparr> if_selectedUrl = None, if_showSelector = True, if_isLoading = False,
     if_errorMessage = None, if_instanceToken = None, if_instanceId = None,
     if_currentFormId = None, if_webformInstanceRecordId = None, if_effects = [] \<rparr>"

text \<open>\<open>error.body ? error.body.message : error.message\<close> (line 96).\<close>

definition if_errorText :: "js_error \<Rightarrow> string option" where
  "if_errorText e = (case err_body e of None \<Rightarrow> err_message e | Some m \<Rightarrow> m)"

text \<open>\<open>handleConditionClick\<close> of the iframe component (lines 43 to 100).\<close>

definition if_handleConditionClick ::
  "string option \<Rightarrow> string option \<Rightarrow> js_error + ds_result \<Rightarrow> js_error + string option
     \<Rightarrow> if_state \<Rightarrow> if_state" where
  "if_handleConditionClick formId dbqWebformId created recorded s =
     (let s1 = s\<lparr>if_isLoading := True, if_errorMessage := None\<rparr> in
      if \<not> truthy formId then
        s1\<lparr>if_errorMessage := Some ''Form ID not found for this condition'',
           if_isLoading := False\<rparr>
      else if \<not> truthy dbqWebformId then
        s1\<lparr>if_errorMessage := Some ''DBQ Webform record ID not found'', if_isLoading := False\<rparr>
      else
        (let s2 = s1\<lparr>if_effects := if_effects s1 @ [ApexCreateInstance formId]\<rparr> in
         case created of
           Inl e \<Rightarrow> s2\<lparr>if_errorMessage := if_errorText e, if_isLoading := False\<rparr>
         | Inr ds \<Rightarrow>
             (let s3 = s2\<lparr>if_instanceToken := ds_instanceToken ds,
                          if_instanceId := ds_instanceId ds, if_currentFormId := formId,
                          if_selectedUrl := ds_formUrl ds,
                          if_effects := if_effects s2 @
                            [ApexCreateRecord (ds_instanceToken ds) (ds_instanceId ds)
                               (ds_formUrl ds) dbqWebformId]\<rparr> in
              case recorded of
                Inl e \<Rightarrow> s3\<lparr>if_errorMessage := if_errorText e, if_isLoading := False\<rparr>
              | Inr sfRecordId \<Rightarrow>
                  s3\<lparr>if_webformInstanceRecordId := sfRecordId, if_showSelector := False,
                     if_isLoading := False\<rparr>)))"

section \<open>Vocabulary of the properties\<close>

text \<open>How often a status has been sent to \<open>updateWebformInstanceStatus\<close>.\<close>

definition isStatusUpdate :: "string \<Rightarrow> effect \<Rightarrow> bool" where
  "isStatusUpdate st e = (case e of ApexUpdateStatus r st' \<Rightarrow> st' = st | _ \<Rightarrow> False)"

definition reports :: "string \<Rightarrow> effect list \<Rightarrow> nat" where
  "reports st es = length (filter (isStatusUpdate st) es)"

text \<open>
  The reports made so far plus the one the guard flags still allow: none of the guarded
  handlers lets these numbers grow.
\<close>

definition readyBudget :: "bw_state \<Rightarrow> nat" where
  "readyBudget s = reports ''Ready'' (effects s) + (if didReady s then 0 else 1)"

definition inProgressBudget :: "bw_state \<Rightarrow> nat" where
  "inProgressBudget s =
     reports ''In Progress'' (effects s) + (if didEnd s \<or> didSubmit s then 0 else 1)"

definition submittedBudget :: "bw_state \<Rightarrow> nat" where
  "submittedBudget s = reports ''Submitted'' (effects s) + (if didSubmit s then 0 else 1)"

text \<open>
  Among the operations, the window messages that announce \<open>sessionEnd\<close> with subtype
  \<open>completed\<close>; and the clicks that create a session, that is, those that get past both
  early returns and whose two Apex calls resolve.
\<close>

definition completedSessionEnd :: "bw_op \<Rightarrow> bool" where
  "completedSessionEnd op =
     (case op of
        WindowMessage evt oc \<Rightarrow>
          (case evt of
             None \<Rightarrow> False
           | Some d \<Rightarrow> jsOr (eventType d) (msgType d) = Some ''sessionEnd''
                       \<and> sessionEndType d = Some ''completed'')
      | _ \<Rightarrow> False)"

definition startsSession :: "bw_op \<Rightarrow> bw_state \<Rightarrow> bool" where
  "startsSession op s =
     (case op of
        ConditionClick f r created recorded \<Rightarrow>
          docusignLoaded s \<and> truthy f \<and> truthy r \<and> \<not> isl created \<and> \<not> isl recorded
      | _ \<Rightarrow> False)"

text \<open>
  A run of operations within one session: none of them clears the guard flags, that is,
  none is a click that creates a session and none is \<open>handleBackToSelector\<close>.
\<close>

fun noReset :: "bw_op list \<Rightarrow> bw_state \<Rightarrow> bool" where
  "noReset [] s = True"
| "noReset (op # ops) s =
     (\<not> startsSession op s \<and> op \<noteq> BackToSelector \<and> noReset ops (bw_step op s))"

section \<open>Concrete runs\<close>

text \<open>
  The launch scenario of the specification: the library loads, the item with form
  \<open>f1\<close> is clicked, the session service answers \<open>{t1, s1, https://x/f1}\<close>, the record
  is created as \<open>rec1\<close> and the container is rendered.
\<close>

definition launchOps :: "bw_op list" where
  "launchOps =
     [Connected True,
      ConditionClick (Some ''f1'') (Some ''c1'')
        (Inr (DsResult (Some ''t1'') (Some ''s1'') (Some ''https://x/f1'')))
        (Inr (Some ''rec1'')),
      Rendered True None]"

definition bw_session :: bw_state where
  "bw_session = bw_run launchOps bw_init"

definition completedMsg :: msg_data where
  "completedMsg =
     MsgData (Some ''WebFormsPlayer'') (Some ''sessionEnd'') None (Some ''completed'')"

definition sessionTrace :: "bw_op list" where
  "sessionTrace =
     [SdkEvent ''ready'' None None,
      Rendered True None,
      WindowMessage (Some (MsgData (Some ''WebFormsPlayer'') (Some ''ready'') None None)) None,
      ConditionClick (Some ''f2'') (Some ''c2'') (Inl (JsError None (Some ''boom'')))
        (Inr (Some ''rec2'')),
      SdkEvent ''sessionEnd'' (Some ''finishLater'') None,
      Wired False True,
      WindowMessage (Some (MsgData None None (Some ''sessionEnd'') (Some ''finishLater''))) None,
      SdkEvent ''submitted'' None None,
      WindowMessage (Some (MsgData (Some ''WebFormsPlayer'') None (Some ''submitted'') None)) None,
      SdkEvent ''sessionEnd'' None None]"

text \<open>
  The relaunch scenario: the SDK is loaded and the record \<open>a0X\<close> is In Progress with form
  URL \<open>https://x/f1\<close> and instance id \<open>i1\<close>; then the token refresh answers
  \<open>{instanceToken: t2}\<close> and the widget is mounted.
\<close>

definition rl_loaded_record :: rl_state where
  "rl_loaded_record =
     (rl_init (Some ''a0X''))\<lparr>rl_sdkLoaded := True, rl_status := Some ''In Progress'',
        rl_formUrl := Some ''https://x/f1'', rl_instanceId := Some ''i1''\<rparr>"

definition rl_mounted :: rl_state where
  "rl_mounted = resume (Inr (Refreshed (Some ''t2'') None None)) True rl_loaded_record"

text \<open>
  The relaunch component right after start, with the record already delivered as In
  Progress while the SDK is still loading: the safety timer (handle 0) is pending and a
  resume is waiting for the SDK.
\<close>

definition rl_started :: rl_state where
  "rl_started = rl_connectedCallback_start (rl_init (Some ''a0X''))"

definition rl_waiting :: rl_state where
  "rl_waiting =
     wiredRecord (WireData (Some ''In Progress'') (Some ''https://x/f1'') (Some ''i1''))
       (Inl (JsError None None)) False rl_started"

section \<open>Auxiliary facts\<close>

lemma errorText_cases:
  "errorText e f =
     (if truthy (bodyMessage e) then bodyMessage e
      else if truthy (err_message e) then err_message e else Some f)"
  by (simp add: errorText_def jsOr_def)

lemma errorText_truthy: "f \<noteq> [] \<Longrightarrow> truthy (errorText e f)"
  by (simp add: errorText_cases) (simp add: truthy_def)

lemma activeWidgets_snoc: "activeWidgets (es @ [e]) = widgetEffect e (activeWidgets es)"
  by (simp add: activeWidgets_def)

lemma activeWidgets_append: "activeWidgets (es @ fs) = fold widgetEffect fs (activeWidgets es)"
  by (simp add: activeWidgets_def)

lemma removeAll_only: "set xs \<subseteq> {x} \<Longrightarrow> removeAll x xs = []"
  by (induction xs) auto

lemma reports_snoc:
  "reports st (es @ [ApexUpdateStatus r st']) = reports st es + (if st' = st then 1 else 0)"
  by (simp add: reports_def isStatusUpdate_def)

lemma bw_session_eq:
  "bw_session = \<lparr> showSelector = False, isLoading = False, errorMessage = None,
     docusignSDK = True, docusignLoaded = True, webformsInstance = Some 0,
     hasRendered = True, messageHandler = Some 1, instanceToken = Some ''t1'',
     instanceId = Some ''s1'', currentFormId = Some ''f1'',
     webformInstanceRecordId = Some ''rec1'', pendingFormUrl = Some ''https://x/f1'',
     pendingInstanceToken = Some ''t1'', didEnd = False, didSubmit = False, didReady = False,
     listeners = [1],
     effects = [ApexCreateInstance (Some ''f1''),
       ApexCreateRecord (Some ''t1'') (Some ''s1'') (Some ''https://x/f1'') (Some ''c1''),
       SdkWebforms 0 (Some ''https://x/f1'') (Some ''t1''), WidgetOn 0 ''ready'',
       WidgetOn 0 ''submitted'', WidgetOn 0 ''sessionEnd'', AddMessageListener 1,
       WidgetMount 0],
     nextHandle = 2 \<rparr>"
  by (simp add: bw_session_def launchOps_def bw_run_def bw_init_def connectedCallback_loaded_def
      handleConditionClick_def renderedCallback_def initializeWebform_def truthy_def Let_def)

subsection \<open>What \<open>updateStatus\<close> leaves alone\<close>

lemma updateStatus_frame:
  "listeners (updateStatus oc st s) = listeners s"
  "messageHandler (updateStatus oc st s) = messageHandler s"
  "webformsInstance (updateStatus oc st s) = webformsInstance s"
  "hasRendered (updateStatus oc st s) = hasRendered s"
  "activeWidgets (effects (updateStatus oc st s)) = activeWidgets (effects s)"
  by (simp_all add: updateStatus_def Let_def activeWidgets_snoc widgetEffect_def
      split: option.splits)

lemma updateStatus_flags:
  "didEnd (updateStatus oc st s) = didEnd s"
  "didSubmit (updateStatus oc st s) = didSubmit s"
  "didReady (updateStatus oc st s) = didReady s"
  "webformInstanceRecordId (updateStatus oc st s) = webformInstanceRecordId s"
  by (simp_all add: updateStatus_def Let_def split: option.splits)

lemma updateStatus_reports:
  "reports st (effects (updateStatus oc st' s))
     = reports st (effects s)
       + (if st' = st \<and> truthy (webformInstanceRecordId s) then 1 else 0)"
  by (simp add: updateStatus_def Let_def reports_snoc split: option.splits)

subsection \<open>The invariant of the window and the widgets\<close>

lemma updateStatus_inv: "bw_inv (updateStatus oc st s) = bw_inv s"
  by (simp add: bw_inv_def updateStatus_frame)

lemma flag_update_inv:
  "bw_inv (s\<lparr>didEnd := a\<rparr>) = bw_inv s"
  "bw_inv (s\<lparr>didSubmit := b\<rparr>) = bw_inv s"
  "bw_inv (s\<lparr>didReady := c\<rparr>) = bw_inv s"
  by (simp_all add: bw_inv_def)

lemma sdkHandler_inv: "bw_inv (sdkHandler ty p oc s) = bw_inv s"
  by (simp add: sdkHandler_def markInProgressOnce_def updateStatus_inv flag_update_inv)

lemma messageHandlerFn_inv: "bw_inv (messageHandlerFn evt oc s) = bw_inv s"
  by (simp add: messageHandlerFn_def markInProgressOnce_def updateStatus_inv flag_update_inv
      Let_def split: option.splits)

lemma fold_messageHandlerFn_inv:
  "bw_inv (fold (\<lambda>h. messageHandlerFn evt oc) hs s) = bw_inv s"
  by (induction hs arbitrary: s) (simp_all add: messageHandlerFn_inv)

lemma teardown_result:
  assumes "bw_inv s"
  shows "listeners (teardown s) = []" and "messageHandler (teardown s) = None"
    and "activeWidgets (effects (teardown s)) = []"
    and "webformsInstance (teardown s) = webformsInstance s"
    and "hasRendered (teardown s) = hasRendered s"
    and "effects (teardown s) = effects s
           @ (case messageHandler s of None \<Rightarrow> [] | Some h \<Rightarrow> [RemoveMessageListener h])
           @ (case webformsInstance s of None \<Rightarrow> [] | Some w \<Rightarrow> [WidgetDestroy w])"
  using assms
  by (auto simp add: teardown_def bw_inv_def Let_def activeWidgets_snoc widgetEffect_def
      removeAll_only split: option.splits)

lemma teardown_inv: "bw_inv s \<Longrightarrow> bw_inv (teardown s)"
  using teardown_result [of s]
  by (auto simp add: bw_inv_def)

lemma handleBackToSelector_inv: "bw_inv s \<Longrightarrow> bw_inv (handleBackToSelector s)"
  using teardown_result [of s]
  by (simp add: bw_inv_def handleBackToSelector_def)

lemma handleConditionClick_inv: "bw_inv (handleConditionClick f r c rec s) = bw_inv s"
  by (simp add: handleConditionClick_def bw_inv_def Let_def activeWidgets_append widgetEffect_def
      split: sum.splits)

lemma hasRendered_inv: "bw_inv s \<Longrightarrow> bw_inv (s\<lparr>hasRendered := True\<rparr>)"
  by (auto simp add: bw_inv_def)

lemma initializeWebform_inv:
  assumes "bw_inv s" and "\<not> hasRendered s"
  shows "bw_inv (initializeWebform fault u t (s\<lparr>hasRendered := True\<rparr>))"
proof -
  have n: "listeners s = []" "messageHandler s = None" "webformsInstance s = None"
    "activeWidgets (effects s) = []"
    using assms by (auto simp add: bw_inv_def)
  show ?thesis
    using n
    by (simp add: initializeWebform_def initFailed_def bw_inv_def Let_def
        activeWidgets_append widgetEffect_def split: option.splits sdk_fault.splits)
qed

lemma renderedCallback_inv:
  assumes "bw_inv s"
  shows "bw_inv (renderedCallback found fault s)"
  using assms
  by (simp add: renderedCallback_def Let_def initializeWebform_inv hasRendered_inv)

lemma bw_step_inv:
  assumes "bw_inv s"
  shows "bw_inv (bw_step op s)"
proof (cases op)
  case (Connected x)
  then show ?thesis using assms by (simp add: connectedCallback_loaded_def bw_inv_def)
next
  case (ConnectFailed e)
  then show ?thesis using assms by (simp add: connectedCallback_failed_def bw_inv_def)
next
  case Disconnected
  then show ?thesis using assms by (simp add: disconnectedCallback_def teardown_inv)
next
  case (Rendered x fault)
  then show ?thesis using assms by (simp add: renderedCallback_inv)
next
  case (Wired d e)
  then show ?thesis using assms by (simp add: wiredConditions_def bw_inv_def)
next
  case (ConditionClick f r c rec)
  then show ?thesis using assms by (simp add: handleConditionClick_inv)
next
  case BackToSelector
  then show ?thesis using assms by (simp add: handleBackToSelector_inv)
next
  case (SdkEvent ty p oc)
  then show ?thesis using assms by (simp add: sdkHandler_inv)
next
  case (WindowMessage evt oc)
  then show ?thesis using assms by (simp add: fold_messageHandlerFn_inv)
qed

lemma bw_run_inv: "bw_inv s \<Longrightarrow> bw_inv (bw_run ops s)"
  unfolding bw_run_def
  by (induction ops arbitrary: s) (simp_all add: bw_step_inv)

lemma bw_init_inv: "bw_inv bw_init"
  by (simp add: bw_inv_def bw_init_def activeWidgets_def)

subsection \<open>The guard flags and the report budgets\<close>

lemma reports_le_budget:
  "reports ''Ready'' (effects s) \<le> readyBudget s"
  "reports ''In Progress'' (effects s) \<le> inProgressBudget s"
  "reports ''Submitted'' (effects s) \<le> submittedBudget s"
  by (simp_all add: readyBudget_def inProgressBudget_def submittedBudget_def)

lemma sdkHandler_budget:
  "readyBudget (sdkHandler ty p oc s) \<le> readyBudget s"
  "inProgressBudget (sdkHandler ty p oc s) \<le> inProgressBudget s"
  "submittedBudget (sdkHandler ty p oc s) \<le> submittedBudget s"
  by (simp_all add: sdkHandler_def markInProgressOnce_def readyBudget_def inProgressBudget_def
      submittedBudget_def updateStatus_reports updateStatus_flags)

lemma messageHandlerFn_budget:
  "readyBudget (messageHandlerFn evt oc s) \<le> readyBudget s"
  "inProgressBudget (messageHandlerFn evt oc s) \<le> inProgressBudget s"
  "\<not> completedSessionEnd (WindowMessage evt oc)
     \<Longrightarrow> submittedBudget (messageHandlerFn evt oc s) \<le> submittedBudget s"
  by (auto simp add: messageHandlerFn_def markInProgressOnce_def readyBudget_def
      inProgressBudget_def submittedBudget_def updateStatus_reports updateStatus_flags
      completedSessionEnd_def Let_def split: option.splits)

lemma fold_messageHandlerFn_budget:
  "readyBudget (fold (\<lambda>h. messageHandlerFn evt oc) hs s) \<le> readyBudget s"
  "inProgressBudget (fold (\<lambda>h. messageHandlerFn evt oc) hs s) \<le> inProgressBudget s"
  "\<not> completedSessionEnd (WindowMessage evt oc)
     \<Longrightarrow> submittedBudget (fold (\<lambda>h. messageHandlerFn evt oc) hs s) \<le> submittedBudget s"
proof (induction hs arbitrary: s)
  case Nil
  {
    case 1 show ?case by simp
  next
    case 2 show ?case by simp
  next
    case 3 show ?case by simp
  }
next
  case (Cons h hs)
  {
    case 1
    show ?case
      using Cons.IH(1) [of "messageHandlerFn evt oc s"] messageHandlerFn_budget(1) [of evt oc s]
      by simp
  next
    case 2
    show ?case
      using Cons.IH(2) [of "messageHandlerFn evt oc s"] messageHandlerFn_budget(2) [of evt oc s]
      by simp
  next
    case 3
    then show ?case
      using Cons.IH(3) [of "messageHandlerFn evt oc s"] messageHandlerFn_budget(3) [of evt oc s]
      by simp
  }
qed

lemma teardown_budget:
  "readyBudget (teardown s) = readyBudget s"
  "inProgressBudget (teardown s) = inProgressBudget s"
  "submittedBudget (teardown s) = submittedBudget s"
  by (simp_all add: teardown_def readyBudget_def inProgressBudget_def submittedBudget_def
      reports_def isStatusUpdate_def Let_def split: option.splits)

lemma renderedCallback_budget:
  "readyBudget (renderedCallback c fault s) = readyBudget s"
  "inProgressBudget (renderedCallback c fault s) = inProgressBudget s"
  "submittedBudget (renderedCallback c fault s) = submittedBudget s"
  by (simp_all add: renderedCallback_def initializeWebform_def initFailed_def readyBudget_def
      inProgressBudget_def submittedBudget_def reports_def isStatusUpdate_def Let_def
      split: option.splits sdk_fault.splits)

lemma handleConditionClick_budget:
  assumes "\<not> startsSession (ConditionClick f r c rec) s"
  shows "readyBudget (handleConditionClick f r c rec s) = readyBudget s"
    and "inProgressBudget (handleConditionClick f r c rec s) = inProgressBudget s"
    and "submittedBudget (handleConditionClick f r c rec s) = submittedBudget s"
  using assms
  by (auto simp add: startsSession_def handleConditionClick_def readyBudget_def
      inProgressBudget_def submittedBudget_def reports_def isStatusUpdate_def Let_def
      split: sum.splits)

lemma bw_step_budget:
  assumes "\<not> startsSession op s" and "op \<noteq> BackToSelector"
  shows "readyBudget (bw_step op s) \<le> readyBudget s"
    and "inProgressBudget (bw_step op s) \<le> inProgressBudget s"
    and "\<not> completedSessionEnd op \<Longrightarrow> submittedBudget (bw_step op s) \<le> submittedBudget s"
proof -
  have "readyBudget (bw_step op s) \<le> readyBudget s
    \<and> inProgressBudget (bw_step op s) \<le> inProgressBudget s
    \<and> (\<not> completedSessionEnd op \<longrightarrow> submittedBudget (bw_step op s) \<le> submittedBudget s)"
  proof (cases op)
    case (Connected x)
    then show ?thesis
      by (simp add: connectedCallback_loaded_def readyBudget_def inProgressBudget_def
          submittedBudget_def)
  next
    case (ConnectFailed e)
    then show ?thesis
      by (simp add: connectedCallback_failed_def readyBudget_def inProgressBudget_def
          submittedBudget_def)
  next
    case Disconnected
    then show ?thesis by (simp add: disconnectedCallback_def teardown_budget)
  next
    case (Rendered x fault)
    then show ?thesis by (simp add: renderedCallback_budget)
  next
    case (Wired d e)
    then show ?thesis
      by (simp add: wiredConditions_def readyBudget_def inProgressBudget_def
          submittedBudget_def)
  next
    case (ConditionClick f r c rec)
    then show ?thesis using assms handleConditionClick_budget [of f r c rec s] by simp
  next
    case BackToSelector
    then show ?thesis using assms by simp
  next
    case (SdkEvent ty p oc)
    then show ?thesis by (simp add: sdkHandler_budget)
  next
    case (WindowMessage evt oc)
    then show ?thesis by (simp add: fold_messageHandlerFn_budget)
  qed
  then show "readyBudget (bw_step op s) \<le> readyBudget s"
    and "inProgressBudget (bw_step op s) \<le> inProgressBudget s"
    and "\<not> completedSessionEnd op \<Longrightarrow> submittedBudget (bw_step op s) \<le> submittedBudget s"
    by simp_all
qed

lemma bw_run_budget:
  assumes "noReset ops s"
  shows "readyBudget (bw_run ops s) \<le> readyBudget s"
    and "inProgressBudget (bw_run ops s) \<le> inProgressBudget s"
    and "\<forall>op\<in>set ops. \<not> completedSessionEnd op
           \<Longrightarrow> submittedBudget (bw_run ops s) \<le> submittedBudget s"
  using assms
  unfolding bw_run_def
proof (induction ops arbitrary: s)
  case Nil
  {
    case 1 show ?case by simp
  next
    case 2 show ?case by simp
  next
    case 3 show ?case by simp
  }
next
  case (Cons op ops)
  {
    case 1
    then show ?case
      using Cons.IH(1) [of "bw_step op s"] bw_step_budget(1) [of op s] by simp
  next
    case 2
    then show ?case
      using Cons.IH(2) [of "bw_step op s"] bw_step_budget(2) [of op s] by simp
  next
    case 3
    then show ?case
      using Cons.IH(3) [of "bw_step op s"] bw_step_budget(3) [of op s] by simp
  }
qed

lemma sdkHandler_flags:
  "didEnd s \<Longrightarrow> didEnd (sdkHandler ty p oc s)"
  "didSubmit s \<Longrightarrow> didSubmit (sdkHandler ty p oc s)"
  "didReady s \<Longrightarrow> didReady (sdkHandler ty p oc s)"
  by (simp_all add: sdkHandler_def markInProgressOnce_def updateStatus_flags)

lemma messageHandlerFn_flags:
  "didEnd s \<Longrightarrow> didEnd (messageHandlerFn evt oc s)"
  "didSubmit s \<Longrightarrow> didSubmit (messageHandlerFn evt oc s)"
  "didReady s \<Longrightarrow> didReady (messageHandlerFn evt oc s)"
  by (simp_all add: messageHandlerFn_def markInProgressOnce_def updateStatus_flags Let_def
      split: option.splits)

lemma fold_messageHandlerFn_flags:
  "didEnd s \<Longrightarrow> didEnd (fold (\<lambda>h. messageHandlerFn evt oc) hs s)"
  "didSubmit s \<Longrightarrow> didSubmit (fold (\<lambda>h. messageHandlerFn evt oc) hs s)"
  "didReady s \<Longrightarrow> didReady (fold (\<lambda>h. messageHandlerFn evt oc) hs s)"
  by (induction hs arbitrary: s) (simp_all add: messageHandlerFn_flags)

lemma teardown_flags:
  "didEnd (teardown s) = didEnd s"
  "didSubmit (teardown s) = didSubmit s"
  "didReady (teardown s) = didReady s"
  by (simp_all add: teardown_def Let_def split: option.splits)

lemma initializeWebform_flags:
  "didEnd (initializeWebform fault u t s) = didEnd s"
  "didSubmit (initializeWebform fault u t s) = didSubmit s"
  "didReady (initializeWebform fault u t s) = didReady s"
  by (simp_all add: initializeWebform_def initFailed_def Let_def
      split: option.splits sdk_fault.splits)

lemma renderedCallback_flags:
  "didEnd (renderedCallback c fault s) = didEnd s"
  "didSubmit (renderedCallback c fault s) = didSubmit s"
  "didReady (renderedCallback c fault s) = didReady s"
  by (simp_all add: renderedCallback_def initializeWebform_flags Let_def)

lemma handleConditionClick_flags:
  "startsSession (ConditionClick f r c rec) s \<Longrightarrow>
     \<not> didEnd (handleConditionClick f r c rec s)
     \<and> \<not> didSubmit (handleConditionClick f r c rec s)
     \<and> \<not> didReady (handleConditionClick f r c rec s)"
  "\<not> startsSession (ConditionClick f r c rec) s \<Longrightarrow>
     didEnd (handleConditionClick f r c rec s) = didEnd s
     \<and> didSubmit (handleConditionClick f r c rec s) = didSubmit s
     \<and> didReady (handleConditionClick f r c rec s) = didReady s"
  by (auto simp add: startsSession_def handleConditionClick_def Let_def split: sum.splits)

lemma bw_step_resets:
  assumes "startsSession op s \<or> op = BackToSelector"
  shows "\<not> didEnd (bw_step op s) \<and> \<not> didSubmit (bw_step op s) \<and> \<not> didReady (bw_step op s)"
proof (cases op)
  case (ConditionClick f r c rec)
  then show ?thesis using assms handleConditionClick_flags(1) [of f r c rec s] by simp
next
  case BackToSelector
  then show ?thesis by (simp add: handleBackToSelector_def)
next
  case (Connected x)
  then show ?thesis using assms by (simp add: startsSession_def)
next
  case (ConnectFailed e)
  then show ?thesis using assms by (simp add: startsSession_def)
next
  case Disconnected
  then show ?thesis using assms by (simp add: startsSession_def)
next
  case (Rendered x fault)
  then show ?thesis using assms by (simp add: startsSession_def)
next
  case (Wired d e)
  then show ?thesis using assms by (simp add: startsSession_def)
next
  case (SdkEvent ty p oc)
  then show ?thesis using assms by (simp add: startsSession_def)
next
  case (WindowMessage evt oc)
  then show ?thesis using assms by (simp add: startsSession_def)
qed

lemma bw_step_keeps_flags:
  assumes "\<not> startsSession op s" and "op \<noteq> BackToSelector"
  shows "(didEnd s \<longrightarrow> didEnd (bw_step op s)) \<and> (didSubmit s \<longrightarrow> didSubmit (bw_step op s))
         \<and> (didReady s \<longrightarrow> didReady (bw_step op s))"
proof (cases op)
  case (Connected x)
  then show ?thesis by (simp add: connectedCallback_loaded_def)
next
  case (ConnectFailed e)
  then show ?thesis by (simp add: connectedCallback_failed_def)
next
  case Disconnected
  then show ?thesis by (simp add: disconnectedCallback_def teardown_flags)
next
  case (Rendered x fault)
  then show ?thesis by (simp add: renderedCallback_flags)
next
  case (Wired d e)
  then show ?thesis by (simp add: wiredConditions_def)
next
  case (ConditionClick f r c rec)
  then show ?thesis using assms handleConditionClick_flags(2) [of f r c rec s] by simp
next
  case BackToSelector
  then show ?thesis using assms by simp
next
  case (SdkEvent ty p oc)
  then show ?thesis by (simp add: sdkHandler_flags)
next
  case (WindowMessage evt oc)
  then show ?thesis by (simp add: fold_messageHandlerFn_flags)
qed

section \<open>The claims\<close>

subsection \<open>One-time status guards of betterWebform\<close>

text \<open>
  C1, in the form that holds of the code.
  Take any run of operations of the betterWebform component within one session, that is,
  with no click that creates a session and no \<open>handleBackToSelector\<close> among them: widget
  events and window messages, with renders, wire deliveries, failed clicks, library loads
  or a disconnect in between, from any state. Over the run, \<open>Ready\<close> is sent to
  \<open>updateWebformInstanceStatus\<close> at most once, and not at all when \<open>_didReady\<close> is already
  set; \<open>In Progress\<close> is sent at most once, and not at all when \<open>_didEnd\<close> or
  \<open>_didSubmit\<close> is set; and when none of the messages is a \<open>sessionEnd\<close> of subtype
  \<open>completed\<close>, \<open>Submitted\<close> is sent at most once, and not at all when \<open>_didSubmit\<close> is
  set. The three flags are all cleared by a click that creates a session and by
  \<open>handleBackToSelector\<close>; every other operation leaves a set flag set.
\<close>

theorem guarded_status_reports:
  "(noReset ops s \<longrightarrow>
      reports ''Ready'' (effects (bw_run ops s))
        \<le> reports ''Ready'' (effects s) + (if didReady s then 0 else 1)
      \<and> reports ''In Progress'' (effects (bw_run ops s))
        \<le> reports ''In Progress'' (effects s) + (if didEnd s \<or> didSubmit s then 0 else 1)
      \<and> ((\<forall>op\<in>set ops. \<not> completedSessionEnd op) \<longrightarrow>
           reports ''Submitted'' (effects (bw_run ops s))
             \<le> reports ''Submitted'' (effects s) + (if didSubmit s then 0 else 1)))
   \<and> (startsSession op s \<or> op = BackToSelector \<longrightarrow>
        \<not> didEnd (bw_step op s) \<and> \<not> didSubmit (bw_step op s) \<and> \<not> didReady (bw_step op s))
   \<and> (\<not> startsSession op s \<and> op \<noteq> BackToSelector \<longrightarrow>
        (didEnd s \<longrightarrow> didEnd (bw_step op s)) \<and> (didSubmit s \<longrightarrow> didSubmit (bw_step op s))
        \<and> (didReady s \<longrightarrow> didReady (bw_step op s)))"
proof -
  have a: "reports ''Ready'' (effects (bw_run ops s))
        \<le> reports ''Ready'' (effects s) + (if didReady s then 0 else 1)"
    if "noReset ops s"
    using bw_run_budget(1) [OF that] reports_le_budget(1) [of "bw_run ops s"]
    by (simp add: readyBudget_def)
  have b: "reports ''In Progress'' (effects (bw_run ops s))
        \<le> reports ''In Progress'' (effects s) + (if didEnd s \<or> didSubmit s then 0 else 1)"
    if "noReset ops s"
    using bw_run_budget(2) [OF that] reports_le_budget(2) [of "bw_run ops s"]
    by (simp add: inProgressBudget_def)
  have c: "reports ''Submitted'' (effects (bw_run ops s))
             \<le> reports ''Submitted'' (effects s) + (if didSubmit s then 0 else 1)"
    if "noReset ops s" and "\<forall>op\<in>set ops. \<not> completedSessionEnd op"
    using bw_run_budget(3) [OF that] reports_le_budget(3) [of "bw_run ops s"]
    by (simp add: submittedBudget_def)
  from a b c bw_step_resets [of op s] bw_step_keeps_flags [of op s]
  show ?thesis by blast
qed

theorem guarded_status_reports_witness:
  "noReset sessionTrace bw_session
   \<and> list_all (\<lambda>op. \<not> completedSessionEnd op) sessionTrace
   \<and> reports ''Ready'' (effects (bw_run sessionTrace bw_session)) \<le> 1
   \<and> reports ''In Progress'' (effects (bw_run sessionTrace bw_session)) \<le> 1
   \<and> reports ''Submitted'' (effects (bw_run sessionTrace bw_session)) \<le> 1
   \<and> \<not> didSubmit (bw_step BackToSelector (bw_run sessionTrace bw_session))"
proof -
  have h: "noReset sessionTrace bw_session"
    "\<forall>op\<in>set sessionTrace. \<not> completedSessionEnd op"
    by (simp_all add: sessionTrace_def startsSession_def completedSessionEnd_def jsOr_def
        truthy_def)
  have v: "reports ''Ready'' (effects bw_session) = 0"
    "reports ''In Progress'' (effects bw_session) = 0"
    "reports ''Submitted'' (effects bw_session) = 0"
    "\<not> didReady bw_session" "\<not> didEnd bw_session" "\<not> didSubmit bw_session"
    by (simp_all add: bw_session_eq reports_def isStatusUpdate_def)
  show ?thesis
    using h guarded_status_reports [of sessionTrace bw_session BackToSelector]
      guarded_status_reports [of "[]" "bw_run sessionTrace bw_session" BackToSelector]
    by (simp add: v list_all_iff)
qed

text \<open>
  Against C1 as it is written: after a \<open>submitted\<close> event, \<open>handleBackToSelector\<close> clears
  \<open>_didSubmit\<close> although no session is created (it drops the record identifier); and two
  \<open>sessionEnd\<close> messages of subtype \<open>completed\<close> in one session send \<open>Submitted\<close> twice.
\<close>

theorem guard_reset_and_repeat_counterexample:
  "didSubmit (bw_run [SdkEvent ''submitted'' None None] bw_session)
   \<and> \<not> didSubmit (bw_run [SdkEvent ''submitted'' None None, BackToSelector] bw_session)
   \<and> \<not> startsSession BackToSelector (bw_run [SdkEvent ''submitted'' None None] bw_session)
   \<and> webformInstanceRecordId
        (bw_run [SdkEvent ''submitted'' None None, BackToSelector] bw_session) = None
   \<and> reports ''Submitted''
        (effects (bw_run [WindowMessage (Some completedMsg) None,
                          WindowMessage (Some completedMsg) None] bw_session)) = 2"
  by (simp add: bw_run_def bw_session_eq sdkHandler_def messageHandlerFn_def updateStatus_def
      handleBackToSelector_def teardown_def startsSession_def completedMsg_def observed_def
      activeWidgets_def widgetEffect_def setHas_def allowedSenders_def interesting_def
      reports_def isStatusUpdate_def jsOr_def truthy_def Let_def)

text \<open>
  C2. Once \<open>submitted\<close> has fired, no later \<open>sessionEnd\<close> should produce a status update.
  The code run on the launched session: the SDK fires \<open>submitted\<close>, then a window message
  from \<open>WebFormsPlayer\<close> announces \<open>sessionEnd\<close> with subtype \<open>completed\<close>. The message
  branch of lines 269 to 270 calls \<open>updateStatus\<close> without consulting \<open>_didSubmit\<close>, and
  the backend is called a second time.
\<close>

theorem submitted_then_completed_message_reports_again:
  "effects (bw_run [SdkEvent ''submitted'' None None, WindowMessage (Some completedMsg) None]
              bw_session)
     = effects bw_session @ [ApexUpdateStatus (Some ''rec1'') ''Submitted'',
                             ApexUpdateStatus (Some ''rec1'') ''Submitted'']"
  by (simp add: bw_run_def bw_session_eq sdkHandler_def messageHandlerFn_def updateStatus_def
      completedMsg_def observed_def activeWidgets_def widgetEffect_def setHas_def
      allowedSenders_def interesting_def jsOr_def truthy_def Let_def)




subsection \<open>The load timeout of the relaunch component\<close>

text \<open>
  C4, in the form that holds of the code.
  When the safety timer fires while the SDK has not loaded, the relaunch
  component shows the timeout error, stops the loading indicator and no longer renders the
  container; nothing is mounted and no call is made. When the load resolves afterwards and
  no resume is pending, the error and the loading indicator stay as they are and nothing is
  mounted or called; the component only records that the SDK is loaded. When a resume is
  pending (the record arrived as In Progress before the SDK), the late load runs it: with a
  stored form URL and instance id, a fresh token and the container present, the error is
  cleared and the widget is mounted.
\<close>

theorem load_timeout_behaviour:
  "(\<not> rl_sdkLoaded s \<and> t \<in> set (rl_timers s) \<longrightarrow>
      rl_errorMessage (rl_timerFires t s) = Some ''DocuSign SDK took too long to load.''
      \<and> \<not> rl_isLoading (rl_timerFires t s)
      \<and> \<not> canRender (rl_timerFires t s)
      \<and> rl_webformsInstance (rl_timerFires t s) = rl_webformsInstance s
      \<and> rl_effects (rl_timerFires t s) = rl_effects s)
   \<and> (\<not> rl_pendingResume s \<longrightarrow>
      rl_errorMessage (rl_connectedCallback_loaded rr c s) = rl_errorMessage s
      \<and> rl_isLoading (rl_connectedCallback_loaded rr c s) = rl_isLoading s
      \<and> rl_webformsInstance (rl_connectedCallback_loaded rr c s) = rl_webformsInstance s
      \<and> rl_effects (rl_connectedCallback_loaded rr c s) = rl_effects s
      \<and> rl_sdkLoaded (rl_connectedCallback_loaded rr c s))
   \<and> (rl_pendingResume s \<and> truthy (rl_formUrl s) \<and> truthy (rl_instanceId s) \<and> truthy tok \<longrightarrow>
      rl_errorMessage (rl_connectedCallback_loaded (Inr (Refreshed tok fu ii)) True s) = None
      \<and> \<not> rl_isLoading (rl_connectedCallback_loaded (Inr (Refreshed tok fu ii)) True s)
      \<and> rl_webformsInstance (rl_connectedCallback_loaded (Inr (Refreshed tok fu ii)) True s)
          = Some (rl_nextHandle s))"
proof -
  have a: "\<not> rl_sdkLoaded s \<and> t \<in> set (rl_timers s) \<longrightarrow>
      rl_errorMessage (rl_timerFires t s) = Some ''DocuSign SDK took too long to load.''
      \<and> \<not> rl_isLoading (rl_timerFires t s)
      \<and> \<not> canRender (rl_timerFires t s)
      \<and> rl_webformsInstance (rl_timerFires t s) = rl_webformsInstance s
      \<and> rl_effects (rl_timerFires t s) = rl_effects s"
    by (simp add: rl_timerFires_def rl_timeoutCallback_def canRender_def truthy_def)
  have b: "\<not> rl_pendingResume s \<longrightarrow>
      rl_errorMessage (rl_connectedCallback_loaded rr c s) = rl_errorMessage s
      \<and> rl_isLoading (rl_connectedCallback_loaded rr c s) = rl_isLoading s
      \<and> rl_webformsInstance (rl_connectedCallback_loaded rr c s) = rl_webformsInstance s
      \<and> rl_effects (rl_connectedCallback_loaded rr c s) = rl_effects s
      \<and> rl_sdkLoaded (rl_connectedCallback_loaded rr c s)"
    by (simp add: rl_connectedCallback_loaded_def rl_clearLoadTimeout_def Let_def
        split: option.splits)
  have c: "rl_pendingResume s \<and> truthy (rl_formUrl s) \<and> truthy (rl_instanceId s) \<and> truthy tok \<longrightarrow>
      rl_errorMessage (rl_connectedCallback_loaded (Inr (Refreshed tok fu ii)) True s) = None
      \<and> \<not> rl_isLoading (rl_connectedCallback_loaded (Inr (Refreshed tok fu ii)) True s)
      \<and> rl_webformsInstance (rl_connectedCallback_loaded (Inr (Refreshed tok fu ii)) True s)
          = Some (rl_nextHandle s)"
    by (auto simp add: rl_connectedCallback_loaded_def rl_clearLoadTimeout_def resume_def
        rl_mount_def Let_def split: option.splits)
  from a b c show ?thesis by blast
qed

theorem load_timeout_behaviour_witness:
  "\<not> rl_sdkLoaded rl_started \<and> 0 \<in> set (rl_timers rl_started)
   \<and> rl_errorMessage (rl_timerFires 0 rl_started) = Some ''DocuSign SDK took too long to load.''
   \<and> \<not> rl_isLoading (rl_timerFires 0 rl_started)
   \<and> \<not> rl_pendingResume (rl_timerFires 0 rl_started)
   \<and> rl_errorMessage
       (rl_connectedCallback_loaded (Inl (JsError None None)) False (rl_timerFires 0 rl_started))
       = Some ''DocuSign SDK took too long to load.''
   \<and> rl_pendingResume (rl_timerFires 0 rl_waiting)
   \<and> rl_webformsInstance
       (rl_connectedCallback_loaded (Inr (Refreshed (Some ''t2'') None None)) True
          (rl_timerFires 0 rl_waiting)) = Some 1"
proof -
  have h: "\<not> rl_sdkLoaded rl_started" "0 \<in> set (rl_timers rl_started)"
    "\<not> rl_pendingResume (rl_timerFires 0 rl_started)"
    by (simp_all add: rl_started_def rl_connectedCallback_start_def rl_init_def
        rl_timerFires_def rl_timeoutCallback_def Let_def)
  have k: "rl_pendingResume (rl_timerFires 0 rl_waiting)"
    "truthy (rl_formUrl (rl_timerFires 0 rl_waiting))"
    "truthy (rl_instanceId (rl_timerFires 0 rl_waiting))" "truthy (Some ''t2'')"
    "rl_nextHandle (rl_timerFires 0 rl_waiting) = 1"
    by (simp_all add: rl_waiting_def wiredRecord_def rl_started_def
        rl_connectedCallback_start_def rl_init_def rl_timerFires_def rl_timeoutCallback_def
        truthy_def Let_def)
  show ?thesis
    using h k
      load_timeout_behaviour [of rl_started 0]
      load_timeout_behaviour [of "rl_timerFires 0 rl_started" _ "Inl (JsError None None)" False]
      load_timeout_behaviour [of "rl_timerFires 0 rl_waiting" _ _ _ "Some ''t2''" None None]
    by simp
qed

text \<open>
  Against C4 as it is written: the record is delivered as In Progress, the timer fires and
  the timeout error is shown; the load then resolves, and the pending resume clears the
  error and mounts the widget.
\<close>

theorem late_load_clears_timeout_error_counterexample:
  "rl_errorMessage (rl_timerFires 0 rl_waiting) = Some ''DocuSign SDK took too long to load.''
   \<and> \<not> rl_isLoading (rl_timerFires 0 rl_waiting)
   \<and> rl_errorMessage
       (rl_connectedCallback_loaded (Inr (Refreshed (Some ''t2'') None None)) True
          (rl_timerFires 0 rl_waiting)) = None
   \<and> rl_webformsInstance
       (rl_connectedCallback_loaded (Inr (Refreshed (Some ''t2'') None None)) True
          (rl_timerFires 0 rl_waiting)) = Some 1"
  by (simp add: rl_waiting_def rl_started_def wiredRecord_def rl_connectedCallback_start_def
      rl_init_def rl_timerFires_def rl_timeoutCallback_def rl_connectedCallback_loaded_def
      rl_clearLoadTimeout_def resume_def rl_mount_def jsOr_def truthy_def Let_def)

subsection \<open>Failures of the backend calls\<close>

text \<open>
  C5, in the form that holds of the code.
  When \<open>updateWebformInstanceStatus\<close> rejects, both components that call it
  only set the error banner, to the error's body message, else its message, else
  \<open>Failed to update status\<close>: the widget held is the same and no \<open>destroy\<close> is called. In
  betterWebform the view stays where it is (\<open>showSelector\<close> and the window listener are
  unchanged). In the relaunch component the banner is never empty, so \<open>canRender\<close>, which
  requires an empty \<open>errorMessage\<close>, is false afterwards.
\<close>

theorem status_update_failure_effect:
  "(truthy (webformInstanceRecordId s) \<longrightarrow>
      effects (updateStatus (Some e) st s)
        = effects s @ [ApexUpdateStatus (webformInstanceRecordId s) st]
      \<and> truthy (errorMessage (updateStatus (Some e) st s))
      \<and> errorMessage (updateStatus (Some e) st s) = errorText e ''Failed to update status''
      \<and> showSelector (updateStatus (Some e) st s) = showSelector s
      \<and> webformsInstance (updateStatus (Some e) st s) = webformsInstance s
      \<and> listeners (updateStatus (Some e) st s) = listeners s
      \<and> activeWidgets (effects (updateStatus (Some e) st s)) = activeWidgets (effects s))
   \<and> rl_effects (rl_updateStatus (Some e) st r) = rl_effects r @ [ApexUpdateStatus (rl_recordId r) st]
   \<and> rl_errorMessage (rl_updateStatus (Some e) st r) = errorText e ''Failed to update status''
   \<and> rl_webformsInstance (rl_updateStatus (Some e) st r) = rl_webformsInstance r
   \<and> activeWidgets (rl_effects (rl_updateStatus (Some e) st r)) = activeWidgets (rl_effects r)
   \<and> \<not> canRender (rl_updateStatus (Some e) st r)"
  using errorText_truthy [of "''Failed to update status''" e]
  by (simp add: updateStatus_def rl_updateStatus_def canRender_def Let_def activeWidgets_snoc
      widgetEffect_def)

theorem status_update_failure_effect_witness:
  "truthy (webformInstanceRecordId bw_session)
   \<and> showSelector (updateStatus (Some (JsError None None)) ''Ready'' bw_session) = False
   \<and> errorMessage (updateStatus (Some (JsError None None)) ''Ready'' bw_session)
       = Some ''Failed to update status''
   \<and> webformsInstance (updateStatus (Some (JsError None None)) ''Ready'' bw_session) = Some 0
   \<and> \<not> canRender (rl_updateStatus (Some (JsError None None)) ''Ready'' rl_mounted)"
proof -
  have h: "truthy (webformInstanceRecordId bw_session)"
    by (simp add: bw_session_eq truthy_def)
  have v: "showSelector bw_session = False" "webformsInstance bw_session = Some 0"
    by (simp_all add: bw_session_eq)
  have t: "errorText (JsError None None) ''Failed to update status''
             = Some ''Failed to update status''"
    by (simp add: errorText_def jsOr_def bodyMessage_def truthy_def)
  show ?thesis
    using h status_update_failure_effect [of bw_session "JsError None None" "''Ready''" rl_mounted]
    by (simp add: v t)
qed

text \<open>
  Against C5 as it is written: in the relaunch component with the widget mounted, the
  container is rendered; after a \<open>submitted\<close> event whose status update is rejected it is
  not.
\<close>

theorem relaunch_update_failure_hides_container_counterexample:
  "canRender rl_mounted
   \<and> \<not> canRender (rl_sdkHandler ''submitted'' None (Some (JsError None (Some ''boom''))) rl_mounted)"
  by (simp add: rl_mounted_def rl_loaded_record_def rl_init_def resume_def rl_mount_def
      rl_sdkHandler_def rl_updateStatus_def canRender_def errorText_def jsOr_def truthy_def
      bodyMessage_def Let_def)

text \<open>
  C6, in the form that holds of the code.
  Take a launch attempt that reaches the Apex calls and in which
  \<open>createWebformInstance\<close> or \<open>createWebformInstanceRecord\<close> rejects with \<open>e\<close>. In
  betterWebform the banner is the body message of \<open>e\<close> when that is a non-empty string,
  else the message of \<open>e\<close> when non-empty, else \<open>Unexpected error\<close>. In
  docusignWebformIframe the banner is the body message whenever \<open>e\<close> has a body, and the
  message of \<open>e\<close> otherwise; there is no fixed fallback text. In both components
  \<open>showSelector\<close> keeps its value and the loading indicator is off.
\<close>

theorem launch_failure_stays_in_selector:
  assumes "docusignLoaded s" and "truthy formId" and "truthy dbq"
    and "created = Inl e \<or> (\<exists>ds. created = Inr ds \<and> recorded = Inl e)"
  shows "errorMessage (handleConditionClick formId dbq created recorded s)
           = (if truthy (bodyMessage e) then bodyMessage e
              else if truthy (err_message e) then err_message e
              else Some ''Unexpected error'')
    \<and> showSelector (handleConditionClick formId dbq created recorded s) = showSelector s
    \<and> \<not> isLoading (handleConditionClick formId dbq created recorded s)
    \<and> if_errorMessage (if_handleConditionClick formId dbq created recorded t)
           = (case err_body e of None \<Rightarrow> err_message e | Some m \<Rightarrow> m)
    \<and> if_showSelector (if_handleConditionClick formId dbq created recorded t) = if_showSelector t
    \<and> \<not> if_isLoading (if_handleConditionClick formId dbq created recorded t)"
  using assms
  by (auto simp add: handleConditionClick_def if_handleConditionClick_def errorText_cases
      if_errorText_def Let_def)

theorem launch_failure_stays_in_selector_witness:
  "docusignLoaded (connectedCallback_loaded True bw_init)
   \<and> truthy (Some ''f1'') \<and> truthy (Some ''c1'')
   \<and> errorMessage
       (handleConditionClick (Some ''f1'') (Some ''c1'')
          (Inl (JsError (Some (Some ''Form not found'')) (Some ''Server error'')))
          (Inr (Some ''rec1'')) (connectedCallback_loaded True bw_init))
       = Some ''Form not found''
   \<and> showSelector
       (handleConditionClick (Some ''f1'') (Some ''c1'')
          (Inl (JsError (Some (Some ''Form not found'')) (Some ''Server error'')))
          (Inr (Some ''rec1'')) (connectedCallback_loaded True bw_init))
   \<and> if_errorMessage
       (if_handleConditionClick (Some ''f1'') (Some ''c1'')
          (Inl (JsError (Some (Some ''Form not found'')) (Some ''Server error'')))
          (Inr (Some ''rec1'')) if_init)
       = Some ''Form not found''
   \<and> if_showSelector
       (if_handleConditionClick (Some ''f1'') (Some ''c1'')
          (Inl (JsError (Some (Some ''Form not found'')) (Some ''Server error'')))
          (Inr (Some ''rec1'')) if_init)"
proof -
  have h: "docusignLoaded (connectedCallback_loaded True bw_init)"
    "truthy (Some ''f1'')" "truthy (Some ''c1'')"
    "Inl (JsError (Some (Some ''Form not found'')) (Some ''Server error''))
       = (Inl (JsError (Some (Some ''Form not found'')) (Some ''Server error''))
            :: js_error + ds_result)
     \<or> (\<exists>ds. (Inl (JsError (Some (Some ''Form not found'')) (Some ''Server error''))
                 :: js_error + ds_result) = Inr ds
             \<and> (Inr (Some ''rec1'') :: js_error + string option)
                 = Inl (JsError (Some (Some ''Form not found'')) (Some ''Server error'')))"
    by (simp_all add: connectedCallback_loaded_def truthy_def)
  have v: "showSelector (connectedCallback_loaded True bw_init)" "if_showSelector if_init"
    "truthy (Some ''Form not found'')"
    "bodyMessage (JsError (Some (Some ''Form not found'')) (Some ''Server error''))
       = Some ''Form not found''"
    by (simp_all add: connectedCallback_loaded_def bw_init_def if_init_def bodyMessage_def
        truthy_def)
  show ?thesis
    using h launch_failure_stays_in_selector [OF h, of if_init]
    by (simp add: v)
qed

text \<open>
  Against C6 as it is written: in docusignWebformIframe, a rejection whose body carries
  no message leaves the banner empty, although the error has the message \<open>boom\<close>.
\<close>

theorem iframe_failure_without_message_counterexample:
  "if_errorMessage
     (if_handleConditionClick (Some ''f1'') (Some ''c1'')
        (Inl (JsError (Some None) (Some ''boom''))) (Inr (Some ''rec1'')) if_init) = None
   \<and> if_showSelector
     (if_handleConditionClick (Some ''f1'') (Some ''c1'')
        (Inl (JsError (Some None) (Some ''boom''))) (Inr (Some ''rec1'')) if_init)"
  by (simp add: if_handleConditionClick_def if_errorText_def if_init_def truthy_def Let_def)

subsection \<open>Teardown\<close>

text \<open>
  C7. In every state the betterWebform component can reach, \<open>handleBackToSelector\<close> and
  \<open>disconnectedCallback\<close> leave no \<open>message\<close> listener registered on the window and no
  widget active. The listener the component held has been removed and \<open>destroy\<close> has been
  called on the widget it held: both handles are the ones the component held when the
  handler started, so the calls precede the reset of the fields. After
  \<open>handleBackToSelector\<close> the component holds neither handle and shows the selector.
\<close>

theorem teardown_leaves_nothing_active:
  "listeners (handleBackToSelector (bw_run ops bw_init)) = []
   \<and> messageHandler (handleBackToSelector (bw_run ops bw_init)) = None
   \<and> activeWidgets (effects (handleBackToSelector (bw_run ops bw_init))) = []
   \<and> webformsInstance (handleBackToSelector (bw_run ops bw_init)) = None
   \<and> showSelector (handleBackToSelector (bw_run ops bw_init))
   \<and> effects (handleBackToSelector (bw_run ops bw_init))
       = effects (bw_run ops bw_init)
         @ (case messageHandler (bw_run ops bw_init) of
              None \<Rightarrow> [] | Some h \<Rightarrow> [RemoveMessageListener h])
         @ (case webformsInstance (bw_run ops bw_init) of
              None \<Rightarrow> [] | Some w \<Rightarrow> [WidgetDestroy w])
   \<and> listeners (disconnectedCallback (bw_run ops bw_init)) = []
   \<and> messageHandler (disconnectedCallback (bw_run ops bw_init)) = None
   \<and> activeWidgets (effects (disconnectedCallback (bw_run ops bw_init))) = []
   \<and> effects (disconnectedCallback (bw_run ops bw_init))
       = effects (bw_run ops bw_init)
         @ (case messageHandler (bw_run ops bw_init) of
              None \<Rightarrow> [] | Some h \<Rightarrow> [RemoveMessageListener h])
         @ (case webformsInstance (bw_run ops bw_init) of
              None \<Rightarrow> [] | Some w \<Rightarrow> [WidgetDestroy w])"
proof -
  have i: "bw_inv (bw_run ops bw_init)"
    by (simp add: bw_run_inv bw_init_inv)
  show ?thesis
    using teardown_result [OF i]
    by (simp add: handleBackToSelector_def disconnectedCallback_def)
qed

theorem teardown_leaves_nothing_active_witness:
  "listeners bw_session = [1] \<and> activeWidgets (effects bw_session) = [0]
   \<and> listeners (handleBackToSelector bw_session) = []
   \<and> activeWidgets (effects (handleBackToSelector bw_session)) = []
   \<and> effects (handleBackToSelector bw_session)
       = effects bw_session @ [RemoveMessageListener 1, WidgetDestroy 0]
   \<and> listeners (disconnectedCallback bw_session) = []
   \<and> activeWidgets (effects (disconnectedCallback bw_session)) = []"
proof -
  have v: "listeners bw_session = [1]" "activeWidgets (effects bw_session) = [0]"
    "messageHandler bw_session = Some 1" "webformsInstance bw_session = Some 0"
    by (simp_all add: bw_session_eq activeWidgets_def widgetEffect_def)
  note t = teardown_leaves_nothing_active [of launchOps, folded bw_session_def,
      unfolded v(3,4) option.case append.simps]
  from v(1,2) t show ?thesis by blast
qed

subsection \<open>Relaunch with a refreshed token\<close>

text \<open>
  C8. In the relaunch component with the SDK loaded and a record that has a form URL and an
  instance id, a token refresh that answers with a token mounts the widget with that token.
  A form URL or instance id in the answer replaces the stored one when it is a non-empty
  string; when the answer omits it, the stored one is kept, and the widget is created on
  the form URL so obtained. A widget held before is destroyed first.
\<close>

theorem resume_refresh_merge:
  assumes "rl_sdkLoaded s" and "truthy (rl_formUrl s)" and "truthy (rl_instanceId s)"
    and "truthy tok"
  shows "rl_instanceToken (resume (Inr (Refreshed tok fu ii)) True s) = tok
    \<and> rl_formUrl (resume (Inr (Refreshed tok fu ii)) True s)
        = (if truthy fu then fu else rl_formUrl s)
    \<and> rl_instanceId (resume (Inr (Refreshed tok fu ii)) True s)
        = (if truthy ii then ii else rl_instanceId s)
    \<and> rl_webformsInstance (resume (Inr (Refreshed tok fu ii)) True s) = Some (rl_nextHandle s)
    \<and> rl_effects (resume (Inr (Refreshed tok fu ii)) True s) =
           rl_effects s @ [ApexRefreshToken (rl_recordId s)]
           @ (case rl_webformsInstance s of None \<Rightarrow> [] | Some w \<Rightarrow> [WidgetDestroy w])
           @ [SdkWebforms (rl_nextHandle s) (if truthy fu then fu else rl_formUrl s) tok,
              WidgetOn (rl_nextHandle s) ''ready'', WidgetOn (rl_nextHandle s) ''submitted'',
              WidgetOn (rl_nextHandle s) ''sessionEnd'', WidgetMount (rl_nextHandle s)]
    \<and> rl_errorMessage (resume (Inr (Refreshed tok fu ii)) True s) = None
    \<and> \<not> rl_isLoading (resume (Inr (Refreshed tok fu ii)) True s)"
  using assms
  by (auto simp add: resume_def rl_mount_def jsOr_def Let_def split: option.splits)

theorem resume_refresh_merge_witness:
  "rl_sdkLoaded rl_loaded_record \<and> truthy (rl_formUrl rl_loaded_record)
   \<and> truthy (rl_instanceId rl_loaded_record) \<and> truthy (Some ''t2'')
   \<and> rl_status rl_loaded_record = Some ''In Progress''
   \<and> rl_instanceToken (resume (Inr (Refreshed (Some ''t2'') None None)) True rl_loaded_record)
       = Some ''t2''
   \<and> rl_formUrl (resume (Inr (Refreshed (Some ''t2'') None None)) True rl_loaded_record)
       = Some ''https://x/f1''
   \<and> rl_instanceId (resume (Inr (Refreshed (Some ''t2'') None None)) True rl_loaded_record)
       = Some ''i1''
   \<and> rl_effects (resume (Inr (Refreshed (Some ''t2'') None None)) True rl_loaded_record)
       = [ApexRefreshToken (Some ''a0X''), SdkWebforms 0 (Some ''https://x/f1'') (Some ''t2''),
          WidgetOn 0 ''ready'', WidgetOn 0 ''submitted'', WidgetOn 0 ''sessionEnd'',
          WidgetMount 0]
   \<and> rl_formUrl
       (resume (Inr (Refreshed (Some ''t2'') (Some ''https://x/f2'') None)) True rl_loaded_record)
       = Some ''https://x/f2''"
proof -
  have h: "rl_sdkLoaded rl_loaded_record" "truthy (rl_formUrl rl_loaded_record)"
    "truthy (rl_instanceId rl_loaded_record)" "truthy (Some ''t2'')"
    by (simp_all add: rl_loaded_record_def rl_init_def truthy_def)
  have v: "rl_formUrl rl_loaded_record = Some ''https://x/f1''"
    "rl_instanceId rl_loaded_record = Some ''i1''" "rl_nextHandle rl_loaded_record = 0"
    "rl_effects rl_loaded_record = []" "rl_recordId rl_loaded_record = Some ''a0X''"
    "rl_webformsInstance rl_loaded_record = None" "\<not> truthy None"
    "rl_status rl_loaded_record = Some ''In Progress''" "truthy (Some ''https://x/f2'')"
    by (simp_all add: rl_loaded_record_def rl_init_def truthy_def)
  show ?thesis
    using h resume_refresh_merge [OF h, of None None]
      resume_refresh_merge [OF h, of "Some ''https://x/f2''" None]
    by (simp add: v)
qed

subsection \<open>The sender filter of the fallback listener\<close>

text \<open>
  C9. Every window message the fallback listener processes should name a sender from the
  allow-list \<open>WebFormsPlayer\<close>, \<open>@embedded/signing-ui\<close>, \<open>@embedded-js/core\<close>; the comment
  on line 247 says so (known senders only). The code run on the launched session with a
  message that names no sender at all and has type \<open>submitted\<close>: the test of line 253 only
  rejects a sender that is present and unknown, so the message is processed and
  \<open>Submitted\<close> is sent to the backend.
\<close>

theorem message_without_sender_is_processed:
  "effects (bw_step (WindowMessage (Some (MsgData None None (Some ''submitted'') None)) None)
       bw_session)
     = effects bw_session @ [ApexUpdateStatus (Some ''rec1'') ''Submitted'']"
  by (simp add: bw_session_eq messageHandlerFn_def updateStatus_def allowedSenders_def
      interesting_def setHas_def jsOr_def truthy_def Let_def)

subsection \<open>Status updates without a tracking record\<close>

text \<open>
  C10. In betterWebform, \<open>updateStatus\<close> called while no tracking-record identifier is held
  (\<open>webformInstanceRecordId\<close> is null, undefined or empty) makes no backend call, sets no
  error message and leaves every field of the component unchanged, whatever the status and
  whatever the backend would have answered.
\<close>

theorem updateStatus_without_record_noop:
  "\<not> truthy (webformInstanceRecordId s) \<Longrightarrow> updateStatus oc status s = s"
  by (simp add: updateStatus_def)

theorem updateStatus_without_record_noop_witness:
  "\<not> truthy (webformInstanceRecordId (handleBackToSelector bw_session))
   \<and> updateStatus (Some (JsError None (Some ''boom''))) ''Submitted''
       (handleBackToSelector bw_session) = handleBackToSelector bw_session"
proof -
  have h: "\<not> truthy (webformInstanceRecordId (handleBackToSelector bw_session))"
    by (simp add: handleBackToSelector_def truthy_def)
  show ?thesis
    using h updateStatus_without_record_noop [OF h] by simp
qed

end
